theory Spec2Isabelle
  imports Complex_Main
begin

section \<open>VirtualCoffee beverages API: the store of \<open>drinksApi/app/main.py\<close>\<close>

text \<open>
  The module keeps a list of dictionaries \<^verbatim>\<open>beverages_db\<close> and a counter
  \<^verbatim>\<open>next_id\<close>; every handler reads or mutates them. The model passes both as a
  record \<open>store\<close>. Every \<^verbatim>\<open>raise HTTPException\<close> and every rejected request body is
  a value of the type \<open>error\<close>.

  Modelling boundaries.
  \<^item> Names are sequences of ASCII characters: \<^verbatim>\<open>str.lower\<close> maps \<open>A\<close>..\<open>Z\<close> to
    \<open>a\<close>..\<open>z\<close> and \<^verbatim>\<open>str.strip\<close> removes the ASCII characters for which
    \<^verbatim>\<open>str.isspace\<close> holds. Characters from 128 on are left alone.
  \<^item> Prices are the exact rational values of finite floats; comparisons agree with the
    float comparisons on them, and \<^verbatim>\<open>round(v, 2)\<close> is rounding to the nearest multiple
    of 1/100, ties to the even one, as CPython does on the exact value of \<open>v\<close>. The
    conversion of the rounded decimal back to a float is not modelled.
  \<^item> Identifiers are Python integers, hence \<open>int\<close>.
\<close>

subsection \<open>Strings\<close>

definition lower_char :: "char \<Rightarrow> char" where
  "lower_char c =
     (let n = (of_char c :: nat) in if 65 \<le> n \<and> n \<le> 90 then char_of (n + 32) else c)"

definition py_lower :: "string \<Rightarrow> string" where
  "py_lower v = map lower_char v"

definition isspace :: "char \<Rightarrow> bool" where
  "isspace c = (let n = (of_char c :: nat) in (9 \<le> n \<and> n \<le> 13) \<or> (28 \<le> n \<and> n \<le> 32))"

definition py_strip :: "string \<Rightarrow> string" where
  "py_strip v = rev (dropWhile isspace (rev (dropWhile isspace v)))"

subsection \<open>Prices\<close>

definition round_half_even :: "rat \<Rightarrow> int" where
  "round_half_even x =
     (let f = \<lfloor>x\<rfloor>; d = x - of_int f
      in if d < 1 / 2 then f else if 1 / 2 < d then f + 1 else if even f then f else f + 1)"

definition py_round2 :: "rat \<Rightarrow> rat" where
  "py_round2 v = of_int (round_half_even (v * 100)) / 100"

subsection \<open>Models and errors\<close>

text \<open>
  \<^verbatim>\<open>class Beverage(BaseModel)\<close> with the fields \<^verbatim>\<open>name\<close>, \<^verbatim>\<open>size\<close>, \<^verbatim>\<open>price\<close>, and
  \<^verbatim>\<open>class BeverageResponse(Beverage)\<close>, which adds \<^verbatim>\<open>id\<close>; the dictionaries of
  \<^verbatim>\<open>beverages_db\<close> have the four keys of the latter. The fields \<^verbatim>\<open>size\<close> and \<^verbatim>\<open>id\<close>
  are written \<open>size'\<close> and \<open>id'\<close>.
\<close>

record Beverage =
  name :: string
  size' :: string
  price :: rat

record BeverageResponse = Beverage +
  id' :: int

record BeverageUpdate =
  upd_name :: "string option"
  upd_size :: "string option"
  upd_price :: "rat option"

text \<open>
  A rejected body is a validation error that lists the fields at fault, in the order of
  the fields; \<open>EmptyName\<close>, \<open>InvalidSize\<close> and \<open>InvalidPrice\<close> are an error located at
  \<^verbatim>\<open>name\<close>, \<^verbatim>\<open>size\<close> and \<^verbatim>\<open>price\<close>. \<open>ConflictError DuplicateName\<close> is
  \<^verbatim>\<open>HTTPException(status_code=400)\<close> and \<open>NotFoundError\<close> is
  \<^verbatim>\<open>HTTPException(status_code=404)\<close>; the detail message is left out.
\<close>

datatype field_error = EmptyName | InvalidSize | InvalidPrice

datatype conflict = DuplicateName

datatype error = ValidationError "field_error list" | ConflictError conflict | NotFoundError

subsection \<open>Validation of a request body\<close>

text \<open>
  \<^verbatim>\<open>Field(..., min_length=1, max_length=100)\<close> is checked on the string as sent; the
  validator \<^verbatim>\<open>name_must_not_be_empty\<close> runs after it, on a string that passed.
\<close>

definition name_must_not_be_empty :: "string \<Rightarrow> field_error + string" where
  "name_must_not_be_empty v =
     (if v = [] \<or> py_strip v = [] then Inl EmptyName else Inr (py_strip v))"

definition name_length_ok :: "string \<Rightarrow> bool" where
  "name_length_ok v = (1 \<le> length v \<and> length v \<le> 100)"

definition validate_name :: "string \<Rightarrow> field_error + string" where
  "validate_name v = (if name_length_ok v then name_must_not_be_empty v else Inl EmptyName)"

text \<open>
  \<^verbatim>\<open>pattern="^(small|medium|large)$"\<close>; the pattern is matched by the regex engine
  of pydantic 2, in which \<^verbatim>\<open>$\<close> is the end of the string only.
\<close>

definition size_pattern :: "string \<Rightarrow> bool" where
  "size_pattern v = (v = ''small'' \<or> v = ''medium'' \<or> v = ''large'')"

definition validate_size :: "string \<Rightarrow> field_error + string" where
  "validate_size v = (if size_pattern v then Inr v else Inl InvalidSize)"

text \<open>\<^verbatim>\<open>Field(..., gt=0, le=100)\<close>, then the validator \<^verbatim>\<open>price_must_be_positive\<close>.\<close>

definition price_must_be_positive :: "rat \<Rightarrow> field_error + rat" where
  "price_must_be_positive v =
     (if v \<le> 0 then Inl InvalidPrice
      else if v > 100 then Inl InvalidPrice
      else Inr (py_round2 v))"

definition price_range_ok :: "rat \<Rightarrow> bool" where
  "price_range_ok v = (v > 0 \<and> v \<le> 100)"

definition validate_price :: "rat \<Rightarrow> field_error + rat" where
  "validate_price v = (if price_range_ok v then price_must_be_positive v else Inl InvalidPrice)"

fun field_errors :: "(field_error + 'a) \<Rightarrow> field_error list" where
  "field_errors (Inl e) = [e]"
| "field_errors (Inr _) = []"

text \<open>Building a \<^verbatim>\<open>Beverage\<close> from the body of a request.\<close>

definition validate_Beverage :: "Beverage \<Rightarrow> error + Beverage" where
  "validate_Beverage c =
     (case (validate_name (name c), validate_size (size' c), validate_price (price c)) of
        (Inr n, Inr z, Inr p) \<Rightarrow> Inr \<lparr>name = n, size' = z, price = p\<rparr>
      | (rn, rz, rp) \<Rightarrow> Inl (ValidationError (field_errors rn @ field_errors rz @ field_errors rp)))"

text \<open>
  Building a \<^verbatim>\<open>BeverageUpdate\<close>: the same \<^verbatim>\<open>Field\<close> constraints on the fields that
  are not \<^verbatim>\<open>None\<close>; the class has no validator.
\<close>

definition update_field_errors :: "BeverageUpdate \<Rightarrow> field_error list" where
  "update_field_errors u =
     (case upd_name u of None \<Rightarrow> [] | Some v \<Rightarrow> if name_length_ok v then [] else [EmptyName]) @
     (case upd_size u of None \<Rightarrow> [] | Some v \<Rightarrow> if size_pattern v then [] else [InvalidSize]) @
     (case upd_price u of None \<Rightarrow> [] | Some v \<Rightarrow> if price_range_ok v then [] else [InvalidPrice])"

definition validate_BeverageUpdate :: "BeverageUpdate \<Rightarrow> error + BeverageUpdate" where
  "validate_BeverageUpdate u =
     (if update_field_errors u = [] then Inr u else Inl (ValidationError (update_field_errors u)))"

subsection \<open>The store\<close>

record store =
  beverages_db :: "BeverageResponse list"
  next_id :: int

definition initial_store :: store where
  "initial_store = \<lparr>beverages_db = [], next_id = 1\<rparr>"

definition reset_database :: "store \<Rightarrow> store" where
  "reset_database s = s\<lparr>beverages_db := [], next_id := 1\<rparr>"

subsection \<open>Handlers\<close>

text \<open>\<^verbatim>\<open>get_menu\<close>: \<^verbatim>\<open>if size:\<close> holds for a string that is neither \<^verbatim>\<open>None\<close> nor empty.\<close>

definition get_menu ::
  "store \<Rightarrow> string option \<Rightarrow> rat option \<Rightarrow> rat option \<Rightarrow> BeverageResponse list" where
  "get_menu s size_q min_price max_price =
     (let filtered = beverages_db s;
          filtered = (case size_q of
                        Some z \<Rightarrow> if z \<noteq> [] then [b \<leftarrow> filtered. size' b = z] else filtered
                      | None \<Rightarrow> filtered);
          filtered = (case min_price of
                        Some lo \<Rightarrow> [b \<leftarrow> filtered. price b \<ge> lo]
                      | None \<Rightarrow> filtered);
          filtered = (case max_price of
                        Some hi \<Rightarrow> [b \<leftarrow> filtered. price b \<le> hi]
                      | None \<Rightarrow> filtered)
      in filtered)"

text \<open>The loop of \<^verbatim>\<open>get_beverage_by_name\<close>: the first record whose lowered name matches.\<close>

fun find_by_name :: "string \<Rightarrow> BeverageResponse list \<Rightarrow> BeverageResponse option" where
  "find_by_name name_lower [] = None"
| "find_by_name name_lower (beverage # rest) =
     (if py_lower (name beverage) = name_lower then Some beverage
      else find_by_name name_lower rest)"

definition get_beverage_by_name :: "store \<Rightarrow> string \<Rightarrow> error + BeverageResponse" where
  "get_beverage_by_name s nm =
     (let name_lower = py_strip (py_lower nm)
      in case find_by_name name_lower (beverages_db s) of
           Some beverage \<Rightarrow> Inr beverage
         | None \<Rightarrow> Inl NotFoundError)"

text \<open>The loop of \<^verbatim>\<open>add_beverage\<close>: does some record have this lowered name?\<close>

fun name_exists :: "string \<Rightarrow> BeverageResponse list \<Rightarrow> bool" where
  "name_exists name_lower [] = False"
| "name_exists name_lower (existing # rest) =
     (if py_lower (name existing) = name_lower then True else name_exists name_lower rest)"

definition add_beverage :: "store \<Rightarrow> Beverage \<Rightarrow> (error + BeverageResponse) \<times> store" where
  "add_beverage s beverage =
     (let name_lower = py_lower (name beverage)
      in if name_exists name_lower (beverages_db s) then (Inl (ConflictError DuplicateName), s)
         else
           (let new_beverage = \<lparr>name = name beverage, size' = size' beverage,
                                 price = price beverage, id' = next_id s\<rparr>
            in (Inr new_beverage,
                s\<lparr>beverages_db := beverages_db s @ [new_beverage], next_id := next_id s + 1\<rparr>)))"

text \<open>
  The outer loop of the three handlers that take an identifier: the index of the first
  record with it.
\<close>

fun index_of_id :: "int \<Rightarrow> BeverageResponse list \<Rightarrow> nat option" where
  "index_of_id beverage_id [] = None"
| "index_of_id beverage_id (existing # rest) =
     (if id' existing = beverage_id then Some 0
      else map_option Suc (index_of_id beverage_id rest))"

text \<open>The inner loop of \<^verbatim>\<open>update_beverage\<close>: another record with this lowered name.\<close>

fun name_exists_other :: "int \<Rightarrow> string \<Rightarrow> BeverageResponse list \<Rightarrow> bool" where
  "name_exists_other beverage_id name_lower [] = False"
| "name_exists_other beverage_id name_lower (other # rest) =
     (if id' other \<noteq> beverage_id \<and> py_lower (name other) = name_lower then True
      else name_exists_other beverage_id name_lower rest)"

definition update_beverage ::
  "store \<Rightarrow> int \<Rightarrow> Beverage \<Rightarrow> (error + BeverageResponse) \<times> store" where
  "update_beverage s beverage_id beverage =
     (case index_of_id beverage_id (beverages_db s) of
        None \<Rightarrow> (Inl NotFoundError, s)
      | Some i \<Rightarrow>
          (let name_lower = py_lower (name beverage)
           in if name_exists_other beverage_id name_lower (beverages_db s)
              then (Inl (ConflictError DuplicateName), s)
              else
                (let updated = \<lparr>name = name beverage, size' = size' beverage,
                                 price = price beverage, id' = beverage_id\<rparr>
                 in (Inr updated, s\<lparr>beverages_db := (beverages_db s)[i := updated]\<rparr>))))"

text \<open>
  \<^verbatim>\<open>partial_update_beverage\<close> assigns to the keys of the dictionary found, which stays
  where it is in the list.
\<close>

definition apply_update :: "BeverageUpdate \<Rightarrow> BeverageResponse \<Rightarrow> BeverageResponse" where
  "apply_update u existing =
     (let existing = (case upd_name u of
                        Some v \<Rightarrow> existing\<lparr>name := py_strip v\<rparr> | None \<Rightarrow> existing);
          existing = (case upd_size u of
                        Some v \<Rightarrow> existing\<lparr>size' := v\<rparr> | None \<Rightarrow> existing);
          existing = (case upd_price u of
                        Some v \<Rightarrow> existing\<lparr>price := py_round2 v\<rparr> | None \<Rightarrow> existing)
      in existing)"

definition partial_update_beverage ::
  "store \<Rightarrow> int \<Rightarrow> BeverageUpdate \<Rightarrow> (error + BeverageResponse) \<times> store" where
  "partial_update_beverage s beverage_id u =
     (case index_of_id beverage_id (beverages_db s) of
        None \<Rightarrow> (Inl NotFoundError, s)
      | Some i \<Rightarrow>
          (let existing = apply_update u (beverages_db s ! i)
           in (Inr existing, s\<lparr>beverages_db := (beverages_db s)[i := existing]\<rparr>)))"

text \<open>\<^verbatim>\<open>delete_beverage\<close>: \<^verbatim>\<open>beverages_db.pop(i)\<close> at the index found.\<close>

definition delete_beverage :: "store \<Rightarrow> int \<Rightarrow> (error + unit) \<times> store" where
  "delete_beverage s beverage_id =
     (case index_of_id beverage_id (beverages_db s) of
        None \<Rightarrow> (Inl NotFoundError, s)
      | Some i \<Rightarrow>
          (Inr (), s\<lparr>beverages_db := take i (beverages_db s) @ drop (Suc i) (beverages_db s)\<rparr>))"

definition clear_all_beverages :: "store \<Rightarrow> store" where
  "clear_all_beverages s = reset_database s"

subsection \<open>Routes: the body is validated, then the handler runs\<close>

definition post_menu :: "store \<Rightarrow> Beverage \<Rightarrow> (error + BeverageResponse) \<times> store" where
  "post_menu s body =
     (case validate_Beverage body of
        Inl e \<Rightarrow> (Inl e, s)
      | Inr beverage \<Rightarrow> add_beverage s beverage)"

definition put_menu :: "store \<Rightarrow> int \<Rightarrow> Beverage \<Rightarrow> (error + BeverageResponse) \<times> store" where
  "put_menu s beverage_id body =
     (case validate_Beverage body of
        Inl e \<Rightarrow> (Inl e, s)
      | Inr beverage \<Rightarrow> update_beverage s beverage_id beverage)"

definition patch_menu ::
  "store \<Rightarrow> int \<Rightarrow> BeverageUpdate \<Rightarrow> (error + BeverageResponse) \<times> store" where
  "patch_menu s beverage_id body =
     (case validate_BeverageUpdate body of
        Inl e \<Rightarrow> (Inl e, s)
      | Inr u \<Rightarrow> partial_update_beverage s beverage_id u)"


subsection \<open>Sequences of requests\<close>

text \<open>
  The five operations that change the store, the store after one of them, and the
  identifiers that the successful creations of a sequence of requests hand out, in order.
\<close>

datatype request =
  Create Beverage | Replace int Beverage | Patch int BeverageUpdate | Delete int | Reset

fun after :: "store \<Rightarrow> request \<Rightarrow> store" where
  "after s (Create body) = snd (post_menu s body)"
| "after s (Replace beverage_id body) = snd (put_menu s beverage_id body)"
| "after s (Patch beverage_id body) = snd (patch_menu s beverage_id body)"
| "after s (Delete beverage_id) = snd (delete_beverage s beverage_id)"
| "after s Reset = clear_all_beverages s"

fun assigned_id :: "store \<Rightarrow> request \<Rightarrow> int list" where
  "assigned_id s (Create body) =
     (case fst (post_menu s body) of Inr new_beverage \<Rightarrow> [id' new_beverage] | Inl e \<Rightarrow> [])"
| "assigned_id s other = []"

fun assigned_ids :: "store \<Rightarrow> request list \<Rightarrow> int list" where
  "assigned_ids s [] = []"
| "assigned_ids s (r # rs) = assigned_id s r @ assigned_ids (after s r) rs"

fun run :: "store \<Rightarrow> request list \<Rightarrow> store" where
  "run s [] = s"
| "run s (r # rs) = run (after s r) rs"

subsection \<open>Predicates of the specification\<close>

text \<open>No two records have names that are equal once lowered.\<close>

definition names_unique :: "BeverageResponse list \<Rightarrow> bool" where
  "names_unique db = distinct (map (\<lambda>b. py_lower (name b)) db)"

text \<open>
  The identifiers of the records are distinct and below the counter; together with
  \<open>names_unique\<close> this is what the handlers other than the partial update maintain.
\<close>

definition store_inv :: "store \<Rightarrow> bool" where
  "store_inv s =
     (distinct (map id' (beverages_db s)) \<and>
      list_all (\<lambda>b. id' b < next_id s) (beverages_db s) \<and>
      names_unique (beverages_db s))"

text \<open>
  The filters of the listing as the specification words them: a record passes when it
  meets every filter that is supplied.
\<close>

definition satisfies_supplied ::
  "string option \<Rightarrow> rat option \<Rightarrow> rat option \<Rightarrow> BeverageResponse \<Rightarrow> bool" where
  "satisfies_supplied size_q min_price max_price b =
     ((case size_q of Some z \<Rightarrow> size' b = z | None \<Rightarrow> True) \<and>
      (case min_price of Some lo \<Rightarrow> price b \<ge> lo | None \<Rightarrow> True) \<and>
      (case max_price of Some hi \<Rightarrow> price b \<le> hi | None \<Rightarrow> True))"

text \<open>The same, with an empty size string counted as no size filter.\<close>

definition passes_filters ::
  "string option \<Rightarrow> rat option \<Rightarrow> rat option \<Rightarrow> BeverageResponse \<Rightarrow> bool" where
  "passes_filters size_q min_price max_price b =
     ((case size_q of Some z \<Rightarrow> z = [] \<or> size' b = z | None \<Rightarrow> True) \<and>
      (case min_price of Some lo \<Rightarrow> price b \<ge> lo | None \<Rightarrow> True) \<and>
      (case max_price of Some hi \<Rightarrow> price b \<le> hi | None \<Rightarrow> True))"

subsection \<open>Example menus\<close>

definition espresso :: Beverage where
  "espresso = \<lparr>name = ''Espresso'', size' = ''small'', price = 5 / 2\<rparr>"

definition latte :: Beverage where
  "latte = \<lparr>name = ''Latte'', size' = ''medium'', price = 4\<rparr>"

definition mocha :: Beverage where
  "mocha = \<lparr>name = '' Mocha '', size' = ''large'', price = 4567 / 1000\<rparr>"

definition menu_one :: store where
  "menu_one = snd (post_menu initial_store espresso)"

definition menu_two :: store where
  "menu_two = snd (post_menu (snd (post_menu initial_store latte)) mocha)"

text \<open>Two partial updates of the name, and a sequence of requests.\<close>

definition rename_to_latte :: BeverageUpdate where
  "rename_to_latte = \<lparr>upd_name = Some ''latte'', upd_size = None, upd_price = None\<rparr>"

definition rename_to_blank :: BeverageUpdate where
  "rename_to_blank = \<lparr>upd_name = Some '' '', upd_size = None, upd_price = None\<rparr>"

definition visits :: "request list" where
  "visits = [Create espresso, Create latte, Delete 1, Create latte, Create mocha]"

text \<open>The requests that are partial updates.\<close>

fun is_patch :: "request \<Rightarrow> bool" where
  "is_patch (Patch beverage_id body) = True"
| "is_patch other = False"

section \<open>Properties\<close>

subsection \<open>Strings\<close>

lemma isspace_lower_char: "isspace (lower_char c) = isspace c"
  unfolding isspace_def lower_char_def Let_def
  by (cases c) auto

lemma dropWhile_isspace_lower:
  "dropWhile isspace (map lower_char v) = map lower_char (dropWhile isspace v)"
  by (induction v) (simp_all add: isspace_lower_char)

lemma py_strip_py_lower: "py_strip (py_lower v) = py_lower (py_strip v)"
  unfolding py_strip_def py_lower_def
  by (simp add: dropWhile_isspace_lower rev_map)

subsection \<open>Rounding\<close>

lemma round_half_even_near: "\<bar>of_int (round_half_even x) - x\<bar> \<le> 1 / 2"
proof -
  have lo: "of_int \<lfloor>x\<rfloor> \<le> x" and hi: "x < of_int \<lfloor>x\<rfloor> + 1"
    by linarith+
  show ?thesis
    unfolding round_half_even_def Let_def
    using lo hi by (simp add: abs_le_iff)
qed

lemma py_round2_near: "\<bar>py_round2 v - v\<bar> \<le> 1 / 200"
proof -
  have "\<bar>of_int (round_half_even (v * 100)) - v * 100\<bar> \<le> 1 / 2"
    by (rule round_half_even_near)
  then show ?thesis
    unfolding py_round2_def by (simp add: abs_le_iff field_simps)
qed

lemma py_round2_centi: "py_round2 v * 100 = of_int (round_half_even (v * 100))"
  unfolding py_round2_def by simp

subsection \<open>Validation\<close>

lemma validate_price_Inr:
  "validate_price p = Inr q \<Longrightarrow> 0 < p \<and> p \<le> 100 \<and> q = py_round2 p"
  unfolding validate_price_def price_range_ok_def price_must_be_positive_def
  by (auto split: if_splits)

lemma validate_name_Inr:
  "validate_name v = Inr n \<Longrightarrow> n = py_strip v \<and> n \<noteq> [] \<and> length v \<le> 100"
  unfolding validate_name_def name_must_not_be_empty_def name_length_ok_def
  by (auto split: if_splits)

lemma validate_Beverage_Inr:
  "validate_Beverage body = Inr b \<Longrightarrow>
     validate_name (name body) = Inr (name b) \<and> validate_size (size' body) = Inr (size' b) \<and>
     validate_price (price body) = Inr (price b)"
  unfolding validate_Beverage_def
  by (auto split: sum.splits)

subsection \<open>The loops\<close>

lemma name_exists_iff: "name_exists nl db \<longleftrightarrow> (\<exists>e \<in> set db. py_lower (name e) = nl)"
  by (induction db) auto

lemma index_of_id_None: "index_of_id i db = None \<longleftrightarrow> i \<notin> id' ` set db"
  by (induction db) auto

lemma index_of_id_Some: "index_of_id i db = Some k \<Longrightarrow> k < length db \<and> id' (db ! k) = i"
  by (induction db arbitrary: k) (auto split: if_splits)

lemma find_by_name_append:
  "\<not> name_exists nl db \<Longrightarrow> py_lower (name r) = nl \<Longrightarrow> find_by_name nl (db @ [r]) = Some r"
  by (induction db) auto

subsection \<open>Creation\<close>

lemma add_beverage_failure: "add_beverage s b = (Inl e, s') \<Longrightarrow> s' = s"
  unfolding add_beverage_def Let_def by (auto split: if_splits)

lemma add_beverage_success:
  "add_beverage s b = (Inr r, s') \<Longrightarrow>
     id' r = next_id s \<and> next_id s' = next_id s + 1 \<and> beverages_db s' = beverages_db s @ [r]"
  unfolding add_beverage_def Let_def by (auto split: if_splits)

lemma post_menu_failure: "post_menu s body = (Inl e, s') \<Longrightarrow> s' = s"
  unfolding post_menu_def
  by (auto split: sum.splits dest: add_beverage_failure)

lemma post_menu_success:
  "post_menu s body = (Inr r, s') \<Longrightarrow> id' r = next_id s \<and> next_id s' = next_id s + 1"
  unfolding post_menu_def
  by (auto split: sum.splits dest: add_beverage_success)

subsection \<open>The example menus, evaluated\<close>

lemma menu_one_eq:
  "menu_one =
     \<lparr>beverages_db = [\<lparr>name = ''Espresso'', size' = ''small'', price = 5 / 2, id' = 1\<rparr>],
      next_id = 2\<rparr>"
  by code_simp

lemma menu_two_eq:
  "menu_two =
     \<lparr>beverages_db = [\<lparr>name = ''Latte'', size' = ''medium'', price = 4, id' = 1\<rparr>,
                      \<lparr>name = ''Mocha'', size' = ''large'', price = 457 / 100, id' = 2\<rparr>],
      next_id = 3\<rparr>"
  by code_simp


subsection \<open>The counter\<close>

lemma next_id_put_menu: "next_id (snd (put_menu s i body)) = next_id s"
  unfolding put_menu_def update_beverage_def Let_def
  by (simp split: sum.splits option.splits)

lemma next_id_patch_menu: "next_id (snd (patch_menu s i body)) = next_id s"
  unfolding patch_menu_def partial_update_beverage_def Let_def
  by (simp split: sum.splits option.splits)

lemma next_id_delete_beverage: "next_id (snd (delete_beverage s i)) = next_id s"
  unfolding delete_beverage_def
  by (simp split: option.splits)

lemma assigned_id_after:
  "r \<noteq> Reset \<Longrightarrow>
     next_id (after s r) = next_id s + int (length (assigned_id s r)) \<and>
     set (assigned_id s r) \<subseteq> {next_id s}"
proof (cases r)
  case (Create body)
  obtain res s' where p: "post_menu s body = (res, s')" by (cases "post_menu s body")
  show ?thesis
  proof (cases res)
    case (Inl e)
    with p post_menu_failure [of s body e s'] Create show ?thesis by simp
  next
    case (Inr b)
    with p post_menu_success [of s body b s'] Create show ?thesis by simp
  qed
qed (simp_all add: next_id_put_menu next_id_patch_menu next_id_delete_beverage)

subsection \<open>Replacement and partial update on a name that is taken\<close>

lemma name_exists_other_iff:
  "name_exists_other i nl db \<longleftrightarrow> (\<exists>e \<in> set db. id' e \<noteq> i \<and> py_lower (name e) = nl)"
  by (induction db) auto

lemma update_beverage_conflict:
  assumes "beverage_id \<in> id' ` set (beverages_db s)"
    and "other \<in> set (beverages_db s)" and "id' other \<noteq> beverage_id"
    and "py_lower (name other) = py_lower (name beverage)"
  shows "update_beverage s beverage_id beverage = (Inl (ConflictError DuplicateName), s)"
proof -
  from assms(1) obtain i where "index_of_id beverage_id (beverages_db s) = Some i"
    using index_of_id_None [of beverage_id "beverages_db s"]
    by (cases "index_of_id beverage_id (beverages_db s)") auto
  moreover from assms(2-4)
  have "name_exists_other beverage_id (py_lower (name beverage)) (beverages_db s)"
    by (auto simp: name_exists_other_iff)
  ultimately show ?thesis
    unfolding update_beverage_def by simp
qed

lemma patch_menu_no_conflict: "fst (patch_menu s beverage_id body) \<noteq> Inl (ConflictError c)"
  unfolding patch_menu_def validate_BeverageUpdate_def partial_update_beverage_def Let_def
  by (simp split: option.splits)

subsection \<open>What creation, replacement, deletion and reset maintain\<close>

lemma add_beverage_fresh:
  "add_beverage s b = (Inr r, s') \<Longrightarrow>
     name r = name b \<and> \<not> name_exists (py_lower (name b)) (beverages_db s)"
  unfolding add_beverage_def Let_def by (auto split: if_splits)

lemma store_inv_add_beverage:
  assumes "store_inv s"
  shows "store_inv (snd (add_beverage s b))"
proof (cases "add_beverage s b")
  case (Pair res s')
  show ?thesis
  proof (cases res)
    case (Inl e)
    with Pair add_beverage_failure [of s b e s'] assms show ?thesis by simp
  next
    case (Inr r)
    with Pair have a: "add_beverage s b = (Inr r, s')" by simp
    note ok = add_beverage_success [OF a] and fresh = add_beverage_fresh [OF a]
    from assms have below: "\<forall>e \<in> set (beverages_db s). id' e < next_id s"
      unfolding store_inv_def by (simp add: list_all_iff)
    then have "id' r \<notin> id' ` set (beverages_db s)"
      using ok by auto
    moreover have "py_lower (name r) \<notin> (\<lambda>e. py_lower (name e)) ` set (beverages_db s)"
      using fresh by (auto simp: name_exists_iff)
    ultimately show ?thesis
      using assms ok below Pair
      unfolding store_inv_def names_unique_def
      by (auto simp: list_all_iff)
  qed
qed

lemma store_inv_post_menu: "store_inv s \<Longrightarrow> store_inv (snd (post_menu s body))"
  unfolding post_menu_def
  by (auto split: sum.splits simp: store_inv_add_beverage)

lemma store_inv_update_beverage:
  assumes "store_inv s"
  shows "store_inv (snd (update_beverage s i b))"
proof (cases "index_of_id i (beverages_db s)")
  case None
  with assms show ?thesis unfolding update_beverage_def by simp
next
  case (Some k)
  let ?db = "beverages_db s"
  let ?u = "\<lparr>name = name b, size' = size' b, price = price b, id' = i\<rparr>"
  show ?thesis
  proof (cases "name_exists_other i (py_lower (name b)) ?db")
    case True
    with Some assms show ?thesis unfolding update_beverage_def by simp
  next
    case False
    from index_of_id_Some [OF Some] have k: "k < length ?db" and ik: "id' (?db ! k) = i"
      by auto
    from assms have dist: "distinct (map id' ?db)"
      and below: "\<forall>e \<in> set ?db. id' e < next_id s"
      and names: "distinct (map (\<lambda>e. py_lower (name e)) ?db)"
      unfolding store_inv_def names_unique_def by (auto simp: list_all_iff)
    have ids: "map id' (?db[k := ?u]) = map id' ?db"
      using k ik by (simp add: map_update list_update_same_conv)
    have "\<forall>e \<in> set (?db[k := ?u]). id' e < next_id s"
    proof
      fix e assume "e \<in> set (?db[k := ?u])"
      then have "e = ?u \<or> e \<in> set ?db"
        using set_update_subset_insert [of ?db k ?u] by auto
      moreover have "id' ?u < next_id s"
        using below k ik nth_mem [OF k] by auto
      ultimately show "id' e < next_id s" using below by auto
    qed
    moreover have "distinct (map (\<lambda>e. py_lower (name e)) (?db[k := ?u]))"
    proof (unfold distinct_conv_nth, intro allI impI)
      fix a c
      assume a: "a < length (map (\<lambda>e. py_lower (name e)) (?db[k := ?u]))"
        and c: "c < length (map (\<lambda>e. py_lower (name e)) (?db[k := ?u]))" and ac: "a \<noteq> c"
      then have a': "a < length ?db" and c': "c < length ?db" by simp_all
      have other: "py_lower (name (?db ! j)) \<noteq> py_lower (name b)" if "j < length ?db" "j \<noteq> k" for j
      proof -
        from dist that k have "map id' ?db ! j \<noteq> map id' ?db ! k"
          by (simp add: distinct_conv_nth del: nth_map)
        with that k ik have "id' (?db ! j) \<noteq> i" by simp
        with False that show ?thesis
          by (auto simp: name_exists_other_iff)
      qed
      have old: "py_lower (name (?db ! a)) \<noteq> py_lower (name (?db ! c))"
        using names a' c' ac by (auto simp: distinct_conv_nth)
      show "map (\<lambda>e. py_lower (name e)) (?db[k := ?u]) ! a
              \<noteq> map (\<lambda>e. py_lower (name e)) (?db[k := ?u]) ! c"
        using a' c' k ac other [of a] other [of c] old
        by (auto simp: nth_list_update)
    qed
    ultimately show ?thesis
      using Some False dist ids
      unfolding update_beverage_def store_inv_def names_unique_def Let_def
      by (simp add: list_all_iff)
  qed
qed

lemma store_inv_put_menu: "store_inv s \<Longrightarrow> store_inv (snd (put_menu s i body))"
  unfolding put_menu_def
  by (auto split: sum.splits simp: store_inv_update_beverage)

lemma distinct_remove_nth:
  assumes "distinct ys"
  shows "distinct (take k ys @ drop (Suc k) ys)"
proof -
  from assms have "distinct (take k ys @ drop k ys)" by simp
  then have "set (take k ys) \<inter> set (drop k ys) = {}"
    by (simp only: distinct_append)
  moreover have "set (drop (Suc k) ys) \<subseteq> set (drop k ys)"
    by (rule set_drop_subset_set_drop) simp
  ultimately have "set (take k ys) \<inter> set (drop (Suc k) ys) = {}" by blast
  with assms show ?thesis by simp
qed

lemma distinct_map_remove_nth:
  "distinct (map g xs) \<Longrightarrow> distinct (map g (take k xs @ drop (Suc k) xs))"
  using distinct_remove_nth [of "map g xs" k] by (simp add: take_map drop_map)

lemma store_inv_delete_beverage:
  assumes "store_inv s"
  shows "store_inv (snd (delete_beverage s i))"
proof (cases "index_of_id i (beverages_db s)")
  case None
  with assms show ?thesis unfolding delete_beverage_def by simp
next
  case (Some k)
  let ?db = "beverages_db s"
  have sub: "set (take k ?db @ drop (Suc k) ?db) \<subseteq> set ?db"
    by (auto dest: in_set_takeD in_set_dropD)
  from assms have "list_all (\<lambda>b. id' b < next_id s) (take k ?db @ drop (Suc k) ?db)"
    unfolding store_inv_def list_all_iff using sub by blast
  with assms Some show ?thesis
    unfolding delete_beverage_def store_inv_def names_unique_def
    by (simp add: distinct_map_remove_nth del: map_append)
qed

lemma store_inv_reset: "store_inv (clear_all_beverages s)"
  unfolding clear_all_beverages_def reset_database_def store_inv_def names_unique_def
  by simp

lemma store_inv_initial: "store_inv initial_store"
  unfolding initial_store_def store_inv_def names_unique_def by simp

lemma store_inv_after: "\<not> is_patch r \<Longrightarrow> store_inv s \<Longrightarrow> store_inv (after s r)"
  by (cases r)
    (simp_all add: store_inv_post_menu store_inv_put_menu store_inv_delete_beverage
      store_inv_reset)

section \<open>The claims\<close>

subsection \<open>Listing\<close>

text \<open>
  C10. For every store, \<open>get_menu\<close> called with the empty string as size filter returns
  the same list as \<open>get_menu\<close> called with no size filter, whatever the price filters
  are: the empty string is an absent filter, not a size that matches nothing.
\<close>

theorem get_menu_empty_size_is_absent:
  "get_menu s (Some '''') min_price max_price = get_menu s None min_price max_price"
  unfolding get_menu_def by simp

text \<open>
  C7, as stated: the listing returns exactly the records that satisfy every supplied
  filter. This fails when the size filter is supplied as the empty string: on the menu
  that holds one espresso the listing returns the espresso, and no record has the empty
  size.
\<close>

theorem get_menu_empty_size_counterexample:
  "get_menu menu_one (Some '''') None None
     \<noteq> filter (satisfies_supplied (Some '''') None None) (beverages_db menu_one)"
  unfolding menu_one_eq by (simp add: get_menu_def satisfies_supplied_def)

text \<open>
  C7, amended. For every store and every choice of the three optional filters,
  \<open>get_menu\<close> returns, in the order of the collection, exactly the records whose size
  equals the size filter when that is present and not the empty string, whose price is
  at least \<open>min_price\<close> when present and at most \<open>max_price\<close> when present. The result
  is a list in every case, possibly the empty one; there is no error.
\<close>

theorem get_menu_filters:
  "get_menu s size_q min_price max_price
     = filter (passes_filters size_q min_price max_price) (beverages_db s)"
  unfolding get_menu_def passes_filters_def Let_def
  by (cases size_q; cases min_price; cases max_price) (auto intro: filter_cong)

subsection \<open>Replacing a record that does not exist\<close>

text \<open>
  C8. For every store and every identifier that no record of the collection holds,
  \<open>update_beverage\<close> with that identifier fails with \<open>NotFoundError\<close> and returns the
  store as it was: the same records and the same counter. So does the route on a body
  that passes validation; on any body at all the route leaves the store as it was.
\<close>

theorem replace_missing_id_not_found:
  assumes "beverage_id \<notin> id' ` set (beverages_db s)"
  shows "update_beverage s beverage_id beverage = (Inl NotFoundError, s) \<and>
         (validate_Beverage body = Inr beverage \<longrightarrow>
            put_menu s beverage_id body = (Inl NotFoundError, s)) \<and>
         snd (put_menu s beverage_id body') = s"
proof -
  have "update_beverage s beverage_id b = (Inl NotFoundError, s)" for b
    using assms unfolding update_beverage_def by (simp add: index_of_id_None [symmetric])
  then show ?thesis
    unfolding put_menu_def by (simp split: sum.splits)
qed

theorem replace_missing_id_not_found_witness:
  "7 \<notin> id' ` set (beverages_db menu_one) \<and>
   validate_Beverage mocha = Inr \<lparr>name = ''Mocha'', size' = ''large'', price = 457 / 100\<rparr> \<and>
   update_beverage menu_one 7 \<lparr>name = ''Mocha'', size' = ''large'', price = 457 / 100\<rparr>
     = (Inl NotFoundError, menu_one) \<and>
   put_menu menu_one 7 mocha = (Inl NotFoundError, menu_one) \<and>
   snd (put_menu menu_one 7 \<lparr>name = '' '', size' = ''huge'', price = 0\<rparr>) = menu_one"
proof -
  have h: "7 \<notin> id' ` set (beverages_db menu_one)"
    unfolding menu_one_eq by simp
  have v: "validate_Beverage mocha
             = Inr \<lparr>name = ''Mocha'', size' = ''large'', price = 457 / 100\<rparr>"
    by code_simp
  from replace_missing_id_not_found
         [OF h, of "\<lparr>name = ''Mocha'', size' = ''large'', price = 457 / 100\<rparr>" mocha
            "\<lparr>name = '' '', size' = ''huge'', price = 0\<rparr>"]
       h v
  show ?thesis by simp
qed

subsection \<open>Creating a record whose name is taken\<close>

text \<open>
  C4. For every store that contains a record, and every request body that passes
  validation and whose trimmed name, lowered, equals the lowered name of that record,
  the creation fails with \<open>ConflictError DuplicateName\<close> and the store is unchanged.
\<close>

theorem create_rejects_duplicate_name:
  assumes "existing \<in> set (beverages_db s)"
    and "validate_Beverage body = Inr beverage"
    and "py_lower (py_strip (name body)) = py_lower (name existing)"
  shows "post_menu s body = (Inl (ConflictError DuplicateName), s)"
proof -
  have "name beverage = py_strip (name body)"
    using assms(2) validate_Beverage_Inr validate_name_Inr by blast
  with assms(1,3) have "name_exists (py_lower (name beverage)) (beverages_db s)"
    by (auto simp: name_exists_iff)
  with assms(2) show ?thesis
    unfolding post_menu_def add_beverage_def by simp
qed

theorem create_rejects_duplicate_name_witness:
  "\<lparr>name = ''Espresso'', size' = ''small'', price = 5 / 2, id' = 1\<rparr> \<in> set (beverages_db menu_one) \<and>
   validate_Beverage \<lparr>name = '' ESPRESSO '', size' = ''large'', price = 3\<rparr>
     = Inr \<lparr>name = ''ESPRESSO'', size' = ''large'', price = 3\<rparr> \<and>
   py_lower (py_strip '' ESPRESSO '') = py_lower ''Espresso'' \<and>
   post_menu menu_one \<lparr>name = '' ESPRESSO '', size' = ''large'', price = 3\<rparr>
     = (Inl (ConflictError DuplicateName), menu_one)"
proof -
  have a: "\<lparr>name = ''Espresso'', size' = ''small'', price = 5 / 2, id' = 1\<rparr>
             \<in> set (beverages_db menu_one)"
    unfolding menu_one_eq by simp
  have b: "validate_Beverage \<lparr>name = '' ESPRESSO '', size' = ''large'', price = 3\<rparr>
             = Inr \<lparr>name = ''ESPRESSO'', size' = ''large'', price = 3\<rparr>"
    by code_simp
  have c: "py_lower (py_strip (name \<lparr>name = '' ESPRESSO '', size' = ''large'', price = 3\<rparr>))
             = py_lower (name \<lparr>name = ''Espresso'', size' = ''small'', price = 5 / 2, id' = 1\<rparr>)"
    by code_simp
  from create_rejects_duplicate_name [OF a b c] a b c show ?thesis by simp
qed

subsection \<open>Creation followed by a lookup by name\<close>

text \<open>
  C6. For every store and every request body that the creation accepts, a lookup in
  the resulting store with a name that, trimmed and lowered, equals the trimmed and
  lowered name of the body (the same name in any casing, with or without surrounding
  whitespace) succeeds, and returns the record created, whose name is the trimmed name
  of the body.
\<close>

theorem create_then_get_by_name:
  assumes "post_menu s body = (Inr r, s')"
    and "py_lower (py_strip q) = py_lower (py_strip (name body))"
  shows "get_beverage_by_name s' q = Inr r \<and> name r = py_strip (name body)"
proof -
  from assms(1) obtain beverage where v: "validate_Beverage body = Inr beverage"
    and a: "add_beverage s beverage = (Inr r, s')"
    unfolding post_menu_def by (auto split: sum.splits)
  have n: "name beverage = py_strip (name body)"
    using v validate_Beverage_Inr validate_name_Inr by blast
  from a have fresh: "\<not> name_exists (py_lower (name beverage)) (beverages_db s)"
    and r: "name r = name beverage" and db: "beverages_db s' = beverages_db s @ [r]"
    unfolding add_beverage_def Let_def by (auto split: if_splits)
  have "find_by_name (py_strip (py_lower q)) (beverages_db s') = Some r"
    unfolding db using fresh r n assms(2)
    by (intro find_by_name_append) (simp_all add: py_strip_py_lower)
  then show ?thesis
    using r n unfolding get_beverage_by_name_def by simp
qed

theorem create_then_get_by_name_witness:
  "post_menu menu_one mocha
     = (Inr \<lparr>name = ''Mocha'', size' = ''large'', price = 457 / 100, id' = 2\<rparr>,
        \<lparr>beverages_db = [\<lparr>name = ''Espresso'', size' = ''small'', price = 5 / 2, id' = 1\<rparr>,
                         \<lparr>name = ''Mocha'', size' = ''large'', price = 457 / 100, id' = 2\<rparr>],
         next_id = 3\<rparr>) \<and>
   py_lower (py_strip ''  mOCHA'') = py_lower (py_strip '' Mocha '') \<and>
   get_beverage_by_name
     \<lparr>beverages_db = [\<lparr>name = ''Espresso'', size' = ''small'', price = 5 / 2, id' = 1\<rparr>,
                      \<lparr>name = ''Mocha'', size' = ''large'', price = 457 / 100, id' = 2\<rparr>],
      next_id = 3\<rparr> ''  mOCHA''
     = Inr \<lparr>name = ''Mocha'', size' = ''large'', price = 457 / 100, id' = 2\<rparr> \<and>
   ''Mocha'' = py_strip '' Mocha ''"
proof -
  have a: "post_menu menu_one mocha
     = (Inr \<lparr>name = ''Mocha'', size' = ''large'', price = 457 / 100, id' = 2\<rparr>,
        \<lparr>beverages_db = [\<lparr>name = ''Espresso'', size' = ''small'', price = 5 / 2, id' = 1\<rparr>,
                         \<lparr>name = ''Mocha'', size' = ''large'', price = 457 / 100, id' = 2\<rparr>],
         next_id = 3\<rparr>)"
    by code_simp
  have b: "py_lower (py_strip ''  mOCHA'') = py_lower (py_strip (name mocha))"
    by code_simp
  have b': "py_lower (py_strip ''  mOCHA'') = py_lower (py_strip '' Mocha '')"
    by code_simp
  have c: "''Mocha'' = py_strip '' Mocha ''"
    by code_simp
  note d = conjunct1 [OF create_then_get_by_name [OF a b]]
  from a b' d c show ?thesis by (intro conjI)
qed

subsection \<open>Prices\<close>

text \<open>
  C9. The validation of a price rejects 0 and 100.01 with \<open>InvalidPrice\<close> and accepts
  100 and 0.01. Every price \<open>p\<close> that it accepts satisfies \<open>0 < p \<le> 100\<close>, and the value
  \<open>q\<close> kept for it is \<open>p\<close> rounded to two decimal places: \<open>q\<close> is a whole number of
  hundredths, the one that rounding \<open>100 p\<close> gives, and differs from \<open>p\<close> by at most
  half a hundredth. A creation that succeeds stores that value.
\<close>

theorem price_validation:
  "validate_price 0 = Inl InvalidPrice \<and>
   validate_price (10001 / 100) = Inl InvalidPrice \<and>
   validate_price 100 = Inr 100 \<and>
   validate_price (1 / 100) = Inr (1 / 100) \<and>
   (validate_price p = Inr q \<longrightarrow>
      0 < p \<and> p \<le> 100 \<and> q = py_round2 p \<and> q * 100 = of_int (round_half_even (p * 100))
      \<and> \<bar>q - p\<bar> \<le> 1 / 200) \<and>
   (post_menu s body = (Inr r, s') \<longrightarrow>
      validate_price (price body) = Inr (price r) \<and> r \<in> set (beverages_db s'))"
proof -
  have "validate_price 0 = Inl InvalidPrice" by code_simp
  moreover have "validate_price (10001 / 100) = Inl InvalidPrice" by code_simp
  moreover have "validate_price 100 = Inr 100" by code_simp
  moreover have "validate_price (1 / 100) = Inr (1 / 100)" by code_simp
  moreover have "validate_price p = Inr q \<longrightarrow>
      0 < p \<and> p \<le> 100 \<and> q = py_round2 p \<and> q * 100 = of_int (round_half_even (p * 100))
      \<and> \<bar>q - p\<bar> \<le> 1 / 200"
    using validate_price_Inr [of p q] py_round2_near [of p] py_round2_centi [of p] by blast
  moreover have "post_menu s body = (Inr r, s') \<longrightarrow>
      validate_price (price body) = Inr (price r) \<and> r \<in> set (beverages_db s')"
  proof
    assume p: "post_menu s body = (Inr r, s')"
    then obtain beverage where v: "validate_Beverage body = Inr beverage"
      and a: "add_beverage s beverage = (Inr r, s')"
      unfolding post_menu_def by (auto split: sum.splits)
    from a have "price r = price beverage" and "beverages_db s' = beverages_db s @ [r]"
      unfolding add_beverage_def Let_def by (auto split: if_splits)
    with validate_Beverage_Inr [OF v]
    show "validate_price (price body) = Inr (price r) \<and> r \<in> set (beverages_db s')"
      by simp
  qed
  ultimately show ?thesis by blast
qed

theorem price_validation_witness:
  "validate_price (4567 / 1000) = Inr (457 / 100) \<and>
   (0::rat) < 4567 / 1000 \<and> (4567 / 1000 :: rat) \<le> 100 \<and>
   \<bar>(457 / 100 :: rat) - 4567 / 1000\<bar> \<le> 1 / 200 \<and>
   post_menu initial_store mocha
     = (Inr \<lparr>name = ''Mocha'', size' = ''large'', price = 457 / 100, id' = 1\<rparr>,
        \<lparr>beverages_db = [\<lparr>name = ''Mocha'', size' = ''large'', price = 457 / 100, id' = 1\<rparr>],
         next_id = 2\<rparr>) \<and>
   validate_price (price mocha) = Inr (457 / 100)"
proof -
  have a: "validate_price (4567 / 1000) = Inr (457 / 100)"
    by code_simp
  have b: "post_menu initial_store mocha
     = (Inr \<lparr>name = ''Mocha'', size' = ''large'', price = 457 / 100, id' = 1\<rparr>,
        \<lparr>beverages_db = [\<lparr>name = ''Mocha'', size' = ''large'', price = 457 / 100, id' = 1\<rparr>],
         next_id = 2\<rparr>)"
    by code_simp
  from price_validation
         [of "4567 / 1000" "457 / 100" initial_store mocha
             "\<lparr>name = ''Mocha'', size' = ''large'', price = 457 / 100, id' = 1\<rparr>"
             "\<lparr>beverages_db = [\<lparr>name = ''Mocha'', size' = ''large'', price = 457 / 100, id' = 1\<rparr>],
               next_id = 2\<rparr>"]
       a b
  show ?thesis by simp
qed

subsection \<open>Identifiers\<close>

text \<open>
  C5. Along every sequence of creations, replacements, partial updates and deletions,
  from every store, the identifiers handed out by the successful creations are strictly
  increasing in the order of creation, whatever was deleted in between, and none is
  below the counter at the start; the counter at the end is the counter at the start
  plus the number of successful creations, so that a failed creation and every other
  request leave it as it was. A reset, which puts the counter back to 1, is not part of
  such a sequence.
\<close>

theorem identifiers_increase:
  "Reset \<notin> set rs \<Longrightarrow>
     sorted_wrt (<) (assigned_ids s rs) \<and>
     (\<forall>i \<in> set (assigned_ids s rs). next_id s \<le> i) \<and>
     next_id (run s rs) = next_id s + int (length (assigned_ids s rs))"
proof (induction rs arbitrary: s)
  case Nil
  then show ?case by simp
next
  case (Cons r rs)
  from Cons.prems have r: "r \<noteq> Reset" and rs: "Reset \<notin> set rs" by auto
  note step = assigned_id_after [OF r, of s]
  note ih = Cons.IH [OF rs, of "after s r"]
  have len: "length (assigned_id s r) \<le> 1"
    by (cases r) (auto split: sum.splits)
  have sorted_head: "sorted_wrt (<) (assigned_id s r)"
    using len by (cases "assigned_id s r") auto
  have "\<forall>x \<in> set (assigned_id s r). \<forall>y \<in> set (assigned_ids (after s r) rs). x < y"
  proof (intro ballI)
    fix x y assume x: "x \<in> set (assigned_id s r)" and y: "y \<in> set (assigned_ids (after s r) rs)"
    from x step have "x = next_id s" by auto
    moreover from x have "length (assigned_id s r) \<ge> 1" by (cases "assigned_id s r") auto
    ultimately show "x < y" using y ih step by fastforce
  qed
  with sorted_head ih step show ?case
    by (auto simp: sorted_wrt_append)
qed

theorem identifiers_increase_witness:
  "Reset \<notin> set visits \<and>
   assigned_ids initial_store visits = [1, 2, 3] \<and>
   sorted_wrt (<) (assigned_ids initial_store visits) \<and>
   list_all (\<lambda>i. next_id initial_store \<le> i) (assigned_ids initial_store visits) \<and>
   next_id (run initial_store visits) = 4"
proof -
  have a: "Reset \<notin> set visits"
    unfolding visits_def by simp
  have b: "assigned_ids initial_store visits = [1, 2, 3]"
    by code_simp
  have c: "next_id initial_store = 1"
    by (simp add: initial_store_def)
  from identifiers_increase [OF a, of initial_store] a b c show ?thesis by simp
qed

subsection \<open>Partial update of the name\<close>

text \<open>
  C1. The claim is that after every operation no two records have names equal once
  lowered. \<open>partial_update_beverage\<close> does not look at the other records: on the menu
  with a latte (1) and a mocha (2), which satisfies \<open>store_inv\<close>, the partial update of
  record 2 with the name \<open>latte\<close> succeeds and leaves two records whose lowered names
  are equal. Creation, replacement, deletion and reset keep the names unique
  (\<open>store_inv_after\<close>).
\<close>

theorem patch_breaks_name_uniqueness:
  "store_inv menu_two \<and>
   patch_menu menu_two 2 rename_to_latte
     = (Inr \<lparr>name = ''latte'', size' = ''large'', price = 457 / 100, id' = 2\<rparr>,
        \<lparr>beverages_db = [\<lparr>name = ''Latte'', size' = ''medium'', price = 4, id' = 1\<rparr>,
                         \<lparr>name = ''latte'', size' = ''large'', price = 457 / 100, id' = 2\<rparr>],
         next_id = 3\<rparr>) \<and>
   \<not> names_unique (beverages_db (after menu_two (Patch 2 rename_to_latte)))"
proof -
  have "store_inv menu_two"
    unfolding menu_two_eq by code_simp
  moreover have p: "patch_menu menu_two 2 rename_to_latte
     = (Inr \<lparr>name = ''latte'', size' = ''large'', price = 457 / 100, id' = 2\<rparr>,
        \<lparr>beverages_db = [\<lparr>name = ''Latte'', size' = ''medium'', price = 4, id' = 1\<rparr>,
                         \<lparr>name = ''latte'', size' = ''large'', price = 457 / 100, id' = 2\<rparr>],
         next_id = 3\<rparr>)"
    unfolding menu_two_eq by code_simp
  moreover have "\<not> names_unique [\<lparr>name = ''Latte'', size' = ''medium'', price = 4, id' = 1\<rparr>,
                         \<lparr>name = ''latte'', size' = ''large'', price = 457 / 100, id' = 2\<rparr>]"
    by code_simp
  ultimately show ?thesis by simp
qed

text \<open>
  C2. The claim is that a partial update whose name equals, case-insensitively, the
  name of another record fails with \<open>ConflictError DuplicateName\<close>, as the replacement
  does. On the same menu the partial update of record 2 with the name \<open>latte\<close> returns
  the renamed record, where the replacement of record 2 by a beverage of that name
  fails with the conflict.
\<close>

theorem patch_accepts_duplicate_name:
  "fst (patch_menu menu_two 2 rename_to_latte)
     = Inr \<lparr>name = ''latte'', size' = ''large'', price = 457 / 100, id' = 2\<rparr> \<and>
   put_menu menu_two 2 \<lparr>name = ''latte'', size' = ''large'', price = 457 / 100\<rparr>
     = (Inl (ConflictError DuplicateName), menu_two)"
proof -
  have "fst (patch_menu menu_two 2 rename_to_latte)
     = Inr \<lparr>name = ''latte'', size' = ''large'', price = 457 / 100, id' = 2\<rparr>"
    unfolding menu_two_eq by code_simp
  moreover have "put_menu menu_two 2 \<lparr>name = ''latte'', size' = ''large'', price = 457 / 100\<rparr>
     = (Inl (ConflictError DuplicateName), menu_two)"
    unfolding menu_two_eq by code_simp
  ultimately show ?thesis by simp
qed

text \<open>
  C3. The claim is that a partial update validates a name by the rules of creation, so
  that a name that is empty once trimmed fails with \<open>EmptyName\<close> and is never stored.
  \<open>BeverageUpdate\<close> has the length constraints and no validator: on the menu with one
  espresso the partial update of record 1 with the name made of one space succeeds and
  stores the empty name, where the replacement and the creation with that name fail
  with \<open>EmptyName\<close>.
\<close>

theorem patch_stores_blank_name:
  "patch_menu menu_one 1 rename_to_blank
     = (Inr \<lparr>name = [], size' = ''small'', price = 5 / 2, id' = 1\<rparr>,
        \<lparr>beverages_db = [\<lparr>name = [], size' = ''small'', price = 5 / 2, id' = 1\<rparr>],
         next_id = 2\<rparr>) \<and>
   put_menu menu_one 1 \<lparr>name = '' '', size' = ''small'', price = 5 / 2\<rparr>
     = (Inl (ValidationError [EmptyName]), menu_one) \<and>
   post_menu menu_one \<lparr>name = '' '', size' = ''small'', price = 5 / 2\<rparr>
     = (Inl (ValidationError [EmptyName]), menu_one)"
proof -
  have "patch_menu menu_one 1 rename_to_blank
     = (Inr \<lparr>name = [], size' = ''small'', price = 5 / 2, id' = 1\<rparr>,
        \<lparr>beverages_db = [\<lparr>name = [], size' = ''small'', price = 5 / 2, id' = 1\<rparr>],
         next_id = 2\<rparr>)"
    unfolding menu_one_eq by code_simp
  moreover have "put_menu menu_one 1 \<lparr>name = '' '', size' = ''small'', price = 5 / 2\<rparr>
     = (Inl (ValidationError [EmptyName]), menu_one)"
    unfolding menu_one_eq by code_simp
  moreover have "post_menu menu_one \<lparr>name = '' '', size' = ''small'', price = 5 / 2\<rparr>
     = (Inl (ValidationError [EmptyName]), menu_one)"
    unfolding menu_one_eq by code_simp
  ultimately show ?thesis by simp
qed

end
